theory Spec2Isabelle
  imports Main
begin

section \<open>Data model of the store backend (Backend/index.js)\<close>

text \<open>
  The server keeps three arrays in memory, \<^verbatim>\<open>products\<close>, \<^verbatim>\<open>users\<close> and \<^verbatim>\<open>sales\<close>, read
  from JSON files at startup, and rewrites a file after each mutation of its array.
  Ids are integers. A property of a JavaScript object that may be absent
  (\<^verbatim>\<open>undefined\<close>) is an \<open>option\<close>; the textual fields of users and of request bodies
  are strings when present. The messages of the responses are written without their
  accents.
\<close>

text \<open>
  Prices, stocks, quantities and totals are JavaScript numbers, and the handlers do
  arithmetic on what the request body holds without checking it. A value is modelled by
  the number it converts to: an integer, or \<open>NaN\<close> for a property that is missing or
  not numeric. Arithmetic with \<open>NaN\<close> gives \<open>NaN\<close>, and every comparison with \<open>NaN\<close>
  is false.
\<close>

datatype number = Num int | NaN

instantiation number :: "{comm_monoid_add, minus, times, ord}"
begin

definition zero_number :: number where
  "zero_number = Num 0"

fun plus_number :: "number \<Rightarrow> number \<Rightarrow> number" where
  "plus_number (Num a) (Num b) = Num (a + b)"
| "plus_number _ _ = NaN"

fun minus_number :: "number \<Rightarrow> number \<Rightarrow> number" where
  "minus_number (Num a) (Num b) = Num (a - b)"
| "minus_number _ _ = NaN"

fun times_number :: "number \<Rightarrow> number \<Rightarrow> number" where
  "times_number (Num a) (Num b) = Num (a * b)"
| "times_number _ _ = NaN"

fun less_number :: "number \<Rightarrow> number \<Rightarrow> bool" where
  "less_number (Num a) (Num b) = (a < b)"
| "less_number _ _ = False"

fun less_eq_number :: "number \<Rightarrow> number \<Rightarrow> bool" where
  "less_eq_number (Num a) (Num b) = (a \<le> b)"
| "less_eq_number _ _ = False"

text \<open>
  Addition is associative and commutative with \<open>0\<close> as its unit (\<open>NaN\<close> absorbs), so
  sums over lists of numbers are available.
\<close>

instance
proof
  fix x y z :: number
  show "x + y + z = x + (y + z)"
  proof (cases x)
    case (Num i)
    then show ?thesis by (cases y; cases z) simp_all
  next
    case NaN
    then show ?thesis by simp
  qed
  show "x + y = y + x"
  proof (cases y)
    case (Num j)
    then show ?thesis by (cases x) simp_all
  next
    case NaN
    then show ?thesis by simp
  qed
  show "0 + x = x"
    unfolding zero_number_def by (cases x) simp_all
qed

end

record product =
  p_id :: int
  p_name :: string
  p_category :: string
  p_price :: number
  p_stock :: number
  p_image :: string

record user =
  u_id :: int
  u_name :: "string option"
  u_email :: "string option"
  u_password :: "string option"
  u_phone :: "string option"
  u_address :: "string option"
  u_role :: "string option"

record sale =
  s_id :: int
  s_userId :: int
  s_productId :: int
  s_quantity :: number
  s_total :: number
  s_date :: string

text \<open>
  The state of the process: the three arrays, and the contents last written to each of
  the three files (\<^verbatim>\<open>writeFile\<close> stores the whole array, and is taken to succeed).
\<close>

record state =
  products :: "product list"
  users :: "user list"
  sales :: "sale list"
  products_file :: "product list"
  users_file :: "user list"
  sales_file :: "sale list"

text \<open>A line of the cart sent to \<^verbatim>\<open>POST /orders\<close>: \<^verbatim>\<open>{id, quantity}\<close>.\<close>

record item =
  i_id :: int
  i_quantity :: number

text \<open>The payload of the bearer token, which the middleware stores in \<^verbatim>\<open>req.user\<close>.\<close>

record claim =
  c_id :: int
  c_email :: "string option"
  c_role :: "string option"

text \<open>The order object of the response of \<^verbatim>\<open>POST /orders\<close>.\<close>

record order =
  o_id :: int
  o_userId :: int
  o_userName :: "string option"
  o_items :: "sale list"
  o_total :: number
  o_date :: string

text \<open>A sale of \<^verbatim>\<open>GET /orders/my-orders\<close>: the sale with the product's name and image.\<close>

record enriched_sale =
  e_sale :: sale
  e_productName :: string
  e_productImage :: "string option"

text \<open>
  The libraries and the clock the handlers call: \<^verbatim>\<open>bcrypt.hash(password, 10)\<close>,
  \<^verbatim>\<open>bcrypt.compare(password, hash)\<close>, \<^verbatim>\<open>jwt.sign\<close>, \<^verbatim>\<open>jwt.verify\<close> (\<open>None\<close> when it
  reports an error) and \<^verbatim>\<open>new Date().toISOString()\<close>; \<open>now i\<close> is the time read by
  the \<open>i\<close>-th reading of the clock within one request.
\<close>

record lib =
  bcrypt_hash :: "string \<Rightarrow> string"
  bcrypt_compare :: "string \<Rightarrow> string \<Rightarrow> bool"
  jwt_sign :: "claim \<Rightarrow> string"
  jwt_verify :: "string \<Rightarrow> claim option"
  now :: "nat \<Rightarrow> string"

text \<open>The JSON bodies of the responses; a response is a status code and a body.\<close>

datatype body =
    Error string
  | Products "product list"
  | Product product
  | Categories "string list"
  | Auth string user string
  | OrderCreated string order
  | MyOrders "enriched_sale list"
  | Profile user
  | ProfileUpdated string user
  | PriceUpdated string product
  | Message string
  | Sales "sale list"
  | UserCreated string user
  | SaleRegistered string sale
  | Info string string

type_synonym response = "nat \<times> body"

section \<open>JavaScript helpers\<close>

text \<open>Truthiness of a value that is a string or \<^verbatim>\<open>undefined\<close>: the empty string is falsy.\<close>

fun truthy :: "string option \<Rightarrow> bool" where
  "truthy None = False"
| "truthy (Some s) = (s \<noteq> [])"

text \<open>\<^verbatim>\<open>x || ''\<close> for such a value.\<close>

fun or_empty :: "string option \<Rightarrow> string option" where
  "or_empty None = Some []"
| "or_empty (Some s) = Some s"

text \<open>The decimal text of an integer, as a template literal prints it.\<close>

function show_nat :: "nat \<Rightarrow> string" where
  "show_nat n =
     (if n < 10 then [''0123456789'' ! n]
      else show_nat (n div 10) @ [''0123456789'' ! (n mod 10)])"
  by pat_completeness auto
termination
  by (relation "measure id") auto

declare show_nat.simps [simp del]

definition show_int :: "int \<Rightarrow> string" where
  "show_int k = (if k < 0 then CHR ''-'' # show_nat (nat (- k)) else show_nat (nat k))"

fun show_number :: "number \<Rightarrow> string" where
  "show_number (Num k) = show_int k"
| "show_number NaN = ''NaN''"

text \<open>
  \<^verbatim>\<open>arr.findIndex(pred)\<close>: the index of the first element that satisfies the predicate
  (\<open>None\<close> for the source's \<open>-1\<close>). \<^verbatim>\<open>arr.find(pred)\<close> is \<^const>\<open>List.find\<close>.
\<close>

fun findIndex :: "('a \<Rightarrow> bool) \<Rightarrow> 'a list \<Rightarrow> nat option" where
  "findIndex P [] = None"
| "findIndex P (x # xs) =
     (if P x then Some 0 else map_option Suc (findIndex P xs))"

text \<open>
  An assignment to a property of the object that \<^verbatim>\<open>find\<close> returned changes the element
  of the array itself: the first element that satisfies the predicate.
\<close>

fun update_found :: "('a \<Rightarrow> bool) \<Rightarrow> ('a \<Rightarrow> 'a) \<Rightarrow> 'a list \<Rightarrow> 'a list" where
  "update_found P f [] = []"
| "update_found P f (x # xs) = (if P x then f x # xs else x # update_found P f xs)"

text \<open>\<^verbatim>\<open>arr.splice(index, 1)\<close> for an index inside the array.\<close>

definition splice1 :: "nat \<Rightarrow> 'a list \<Rightarrow> 'a list" where
  "splice1 i xs = take i xs @ drop (Suc i) xs"

text \<open>
  \<^verbatim>\<open>[...new Set(xs)]\<close>: a set keeps its elements in the order of their first insertion.
\<close>

fun set_add :: "'a list \<Rightarrow> 'a \<Rightarrow> 'a list" where
  "set_add acc x = (if x \<in> set acc then acc else acc @ [x])"

definition new_Set :: "'a list \<Rightarrow> 'a list" where
  "new_Set xs = foldl set_add [] xs"

text \<open>
  \<^verbatim>\<open>str.split(' ')\<close>: the pieces between the separators; the result has at least one
  piece.
\<close>

fun split :: "char \<Rightarrow> string \<Rightarrow> string list" where
  "split c [] = [[]]"
| "split c (x # xs) =
     (if x = c then [] # split c xs
      else (case split c xs of
              [] \<Rightarrow> [[x]]
            | w # ws \<Rightarrow> (x # w) # ws))"

text \<open>
  A route parameter is a string, and the handlers compare it with a numeric id by
  \<^verbatim>\<open>==\<close>, which converts the string to a number. The parameter is modelled by the integer
  it denotes, \<open>None\<close> when it denotes none (then it equals no id).
\<close>

fun loose_eq :: "int \<Rightarrow> int option \<Rightarrow> bool" where
  "loose_eq k None = False"
| "loose_eq k (Some n) = (k = n)"

text \<open>\<^verbatim>\<open>const { password: _, ...userWithoutPassword } = user\<close>: the object without that property.\<close>

definition without_password :: "user \<Rightarrow> user" where
  "without_password u = u\<lparr>u_password := None\<rparr>"

section \<open>Order placement\<close>

definition find_product :: "int \<Rightarrow> product list \<Rightarrow> product option" where
  "find_product pid ps = List.find (\<lambda>p. p_id p = pid) ps"

text \<open>\<^verbatim>\<open>product.stock -= item.quantity\<close> on the product found by id.\<close>

definition dec_stock :: "int \<Rightarrow> number \<Rightarrow> product list \<Rightarrow> product list" where
  "dec_stock pid q ps =
     update_found (\<lambda>p. p_id p = pid) (\<lambda>p. p\<lparr>p_stock := p_stock p - q\<rparr>) ps"

text \<open>
  The loop \<^verbatim>\<open>for (const item of items)\<close> of the order handler. It runs on the products
  array, which it changes in place, and on the local variables \<^verbatim>\<open>newSales\<close> and
  \<^verbatim>\<open>orderTotal\<close>; \<open>n\<close> is \<^verbatim>\<open>sales.length\<close>. A \<^verbatim>\<open>return\<close> inside the loop gives \<open>Inl\<close> with
  the error message, next to the products array as it is at that moment. The comparison
  \<^verbatim>\<open>product.stock < item.quantity\<close> is false when either side is \<open>NaN\<close>, so a line
  whose quantity is missing or not numeric passes it.
\<close>

fun order_loop ::
  "(nat \<Rightarrow> string) \<Rightarrow> int \<Rightarrow> nat \<Rightarrow> item list \<Rightarrow> product list \<Rightarrow> sale list \<Rightarrow> number
    \<Rightarrow> product list \<times> (string + sale list \<times> number)" where
  "order_loop clock uid n [] ps newSales orderTotal = (ps, Inr (newSales, orderTotal))"
| "order_loop clock uid n (it # rest) ps newSales orderTotal =
     (case find_product (i_id it) ps of
        None \<Rightarrow> (ps, Inl (''Producto '' @ show_int (i_id it) @ '' no encontrado''))
      | Some product \<Rightarrow>
          if p_stock product < i_quantity it
          then (ps, Inl (''Stock insuficiente para '' @ p_name product
                          @ ''. Disponible: '' @ show_number (p_stock product)))
          else
            let saleTotal = p_price product * i_quantity it;
                newSale = \<lparr> s_id = int n + int (length newSales) + 1,
                            s_userId = uid,
                            s_productId = p_id product,
                            s_quantity = i_quantity it,
                            s_total = saleTotal,
                            s_date = clock (length newSales) \<rparr>
            in order_loop clock uid n rest (dec_stock (i_id it) (i_quantity it) ps)
                 (newSales @ [newSale]) (orderTotal + saleTotal))"

text \<open>
  What follows the loop: the new sales are appended, both files are written, and the
  order is returned. \<^verbatim>\<open>newSales[0]\<close> of an empty array is \<^verbatim>\<open>undefined\<close>, whose \<^verbatim>\<open>id\<close> throws;
  the handler's \<^verbatim>\<open>catch\<close> answers 500.
\<close>

definition finish_order :: "user \<Rightarrow> sale list \<Rightarrow> number \<Rightarrow> state \<Rightarrow> state \<times> response" where
  "finish_order currentUser newSales orderTotal st =
     (let st1 = st\<lparr>sales := sales st @ newSales\<rparr>;
          st2 = st1\<lparr>sales_file := sales st1\<rparr>;
          st3 = st2\<lparr>products_file := products st2\<rparr>
      in case newSales of
           [] \<Rightarrow> (st3, (500, Error ''Error al crear la orden''))
         | first # _ \<Rightarrow>
             (st3, (201, OrderCreated ''Orden creada exitosamente''
                      \<lparr> o_id = s_id first,
                        o_userId = u_id currentUser,
                        o_userName = u_name currentUser,
                        o_items = newSales,
                        o_total = orderTotal,
                        o_date = s_date first \<rparr>)))"

text \<open>
  The handler of \<^verbatim>\<open>POST /orders\<close> (behind \<^verbatim>\<open>authenticateToken\<close>): \<open>items\<close> is the body's
  \<^verbatim>\<open>items\<close> (\<open>None\<close> when absent) and \<open>cl\<close> the token's payload.
\<close>

definition orders :: "lib \<Rightarrow> claim \<Rightarrow> item list option \<Rightarrow> state \<Rightarrow> state \<times> response" where
  "orders l cl items st =
     (case items of
        None \<Rightarrow> (st, (400, Error ''El carrito esta vacio''))
      | Some [] \<Rightarrow> (st, (400, Error ''El carrito esta vacio''))
      | Some its \<Rightarrow>
          (case List.find (\<lambda>u. u_id u = c_id cl) (users st) of
             None \<Rightarrow> (st, (404, Error ''Usuario no encontrado''))
           | Some currentUser \<Rightarrow>
               (case order_loop (now l) (u_id currentUser) (length (sales st)) its
                       (products st) [] 0 of
                  (ps, Inl msg) \<Rightarrow> (st\<lparr>products := ps\<rparr>, (400, Error msg))
                | (ps, Inr (newSales, orderTotal)) \<Rightarrow>
                    finish_order currentUser newSales orderTotal (st\<lparr>products := ps\<rparr>))))"

section \<open>Middleware\<close>

text \<open>
  \<^verbatim>\<open>authHeader && authHeader.split(' ')[1]\<close>: a falsy header is the result itself,
  otherwise the second piece of the header (\<^verbatim>\<open>undefined\<close> when there is none).
\<close>

definition bearer_token :: "string option \<Rightarrow> string option" where
  "bearer_token authHeader =
     (case authHeader of
        None \<Rightarrow> None
      | Some h \<Rightarrow>
          if h = [] then Some []
          else (case split CHR '' '' h of
                  _ # token # _ \<Rightarrow> Some token
                | _ \<Rightarrow> None))"

definition authenticateToken :: "lib \<Rightarrow> string option \<Rightarrow> response + claim" where
  "authenticateToken l authHeader =
     (case bearer_token authHeader of
        None \<Rightarrow> Inl (401, Error ''Token no proporcionado'')
      | Some token \<Rightarrow>
          if token = [] then Inl (401, Error ''Token no proporcionado'')
          else (case jwt_verify l token of
                  None \<Rightarrow> Inl (403, Error ''Token invalido o expirado'')
                | Some user \<Rightarrow> Inr user))"

definition isAdmin :: "claim \<Rightarrow> response option" where
  "isAdmin cl =
     (if c_role cl \<noteq> Some ''admin''
      then Some (403, Error ''Acceso denegado. Se requiere rol de administrador'')
      else None)"

text \<open>A route behind \<^verbatim>\<open>authenticateToken\<close>, and one behind \<^verbatim>\<open>authenticateToken, isAdmin\<close>.\<close>

definition protected ::
  "lib \<Rightarrow> string option \<Rightarrow> (claim \<Rightarrow> state \<Rightarrow> state \<times> response) \<Rightarrow> state \<Rightarrow> state \<times> response" where
  "protected l authHeader handler st =
     (case authenticateToken l authHeader of
        Inl r \<Rightarrow> (st, r)
      | Inr cl \<Rightarrow> handler cl st)"

definition admin ::
  "lib \<Rightarrow> string option \<Rightarrow> (state \<Rightarrow> state \<times> response) \<Rightarrow> state \<Rightarrow> state \<times> response" where
  "admin l authHeader handler st =
     protected l authHeader
       (\<lambda>cl st. case isAdmin cl of Some r \<Rightarrow> (st, r) | None \<Rightarrow> handler st) st"

section \<open>Catalog\<close>

definition get_products :: "state \<Rightarrow> state \<times> response" where
  "get_products st = (st, (200, Products (products st)))"

definition get_product :: "int option \<Rightarrow> state \<Rightarrow> state \<times> response" where
  "get_product param st =
     (case List.find (\<lambda>p. loose_eq (p_id p) param) (products st) of
        Some p \<Rightarrow> (st, (200, Product p))
      | None \<Rightarrow> (st, (404, Error ''Producto no encontrado'')))"

definition get_categories :: "state \<Rightarrow> state \<times> response" where
  "get_categories st = (st, (200, Categories (new_Set (map p_category (products st)))))"

section \<open>Accounts\<close>

text \<open>
  \<^verbatim>\<open>POST /auth/register\<close>. \<^verbatim>\<open>bcrypt.hash\<close> of an absent password throws, and the handler's
  \<^verbatim>\<open>catch\<close> answers 500 (the check of the required fields comes first).
\<close>

definition register ::
  "lib \<Rightarrow> string option \<Rightarrow> string option \<Rightarrow> string option \<Rightarrow> string option \<Rightarrow> string option
    \<Rightarrow> state \<Rightarrow> state \<times> response" where
  "register l name email password phone address st =
     (if \<not> truthy name \<or> \<not> truthy email \<or> \<not> truthy password
      then (st, (400, Error ''Nombre, email y contrasena son requeridos''))
      else
        (case List.find (\<lambda>u. u_email u = email) (users st) of
           Some existingUser \<Rightarrow> (st, (400, Error ''El email ya esta registrado''))
         | None \<Rightarrow>
             (case password of
                None \<Rightarrow> (st, (500, Error ''Error al registrar usuario''))
              | Some pw \<Rightarrow>
                  let hashedPassword = bcrypt_hash l pw;
                      newUser = \<lparr> u_id = int (length (users st)) + 1,
                                  u_name = name,
                                  u_email = email,
                                  u_password = Some hashedPassword,
                                  u_phone = or_empty phone,
                                  u_address = or_empty address,
                                  u_role = Some ''customer'' \<rparr>;
                      st1 = st\<lparr>users := users st @ [newUser]\<rparr>;
                      st2 = st1\<lparr>users_file := users st1\<rparr>;
                      token = jwt_sign l \<lparr> c_id = u_id newUser, c_email = u_email newUser,
                                           c_role = u_role newUser \<rparr>
                  in (st2, (201, Auth ''Usuario registrado exitosamente''
                                  (without_password newUser) token)))))"

text \<open>
  \<^verbatim>\<open>POST /auth/login\<close>. \<^verbatim>\<open>bcrypt.compare\<close> throws when the password or the stored hash is
  absent, and the handler's \<^verbatim>\<open>catch\<close> answers 500.
\<close>

definition login :: "lib \<Rightarrow> string option \<Rightarrow> string option \<Rightarrow> state \<Rightarrow> state \<times> response" where
  "login l email password st =
     (if \<not> truthy email \<or> \<not> truthy password
      then (st, (400, Error ''Email y contrasena son requeridos''))
      else
        (case List.find (\<lambda>u. u_email u = email) (users st) of
           None \<Rightarrow> (st, (401, Error ''Credenciales invalidas''))
         | Some user \<Rightarrow>
             (case (password, u_password user) of
                (Some pw, Some stored) \<Rightarrow>
                  if \<not> bcrypt_compare l pw stored
                  then (st, (401, Error ''Credenciales invalidas''))
                  else
                    let token = jwt_sign l \<lparr> c_id = u_id user, c_email = u_email user,
                                             c_role = u_role user \<rparr>
                    in (st, (200, Auth ''Login exitoso'' (without_password user) token))
              | _ \<Rightarrow> (st, (500, Error ''Error al iniciar sesion'')))))"

definition get_profile :: "claim \<Rightarrow> state \<Rightarrow> state \<times> response" where
  "get_profile cl st =
     (case List.find (\<lambda>u. u_id u = c_id cl) (users st) of
        None \<Rightarrow> (st, (404, Error ''Usuario no encontrado''))
      | Some user \<Rightarrow> (st, (200, Profile (without_password user))))"

text \<open>\<^verbatim>\<open>PUT /auth/profile\<close>: each of the three assignments is guarded by its field's truthiness.\<close>

definition put_profile ::
  "claim \<Rightarrow> string option \<Rightarrow> string option \<Rightarrow> string option \<Rightarrow> state \<Rightarrow> state \<times> response" where
  "put_profile cl name phone address st =
     (case findIndex (\<lambda>u. u_id u = c_id cl) (users st) of
        None \<Rightarrow> (st, (404, Error ''Usuario no encontrado''))
      | Some userIndex \<Rightarrow>
          let us0 = users st;
              us1 = (if truthy name then us0[userIndex := (us0 ! userIndex)\<lparr>u_name := name\<rparr>]
                     else us0);
              us2 = (if truthy phone then us1[userIndex := (us1 ! userIndex)\<lparr>u_phone := phone\<rparr>]
                     else us1);
              us3 = (if truthy address
                     then us2[userIndex := (us2 ! userIndex)\<lparr>u_address := address\<rparr>]
                     else us2);
              st1 = st\<lparr>users := us3\<rparr>;
              st2 = st1\<lparr>users_file := users st1\<rparr>
          in (st2, (200, ProfileUpdated ''Perfil actualizado''
                          (without_password (users st2 ! userIndex)))))"

section \<open>Purchase history and administration\<close>

definition enrich :: "product list \<Rightarrow> sale \<Rightarrow> enriched_sale" where
  "enrich ps sale =
     (case find_product (s_productId sale) ps of
        Some product \<Rightarrow>
          \<lparr> e_sale = sale, e_productName = p_name product,
            e_productImage = Some (p_image product) \<rparr>
      | None \<Rightarrow>
          \<lparr> e_sale = sale, e_productName = ''Producto no encontrado'',
            e_productImage = None \<rparr>)"

definition my_orders :: "claim \<Rightarrow> state \<Rightarrow> state \<times> response" where
  "my_orders cl st =
     (let userSales = filter (\<lambda>s. s_userId s = c_id cl) (sales st)
      in (st, (200, MyOrders (map (enrich (products st)) userSales))))"

definition put_price :: "int option \<Rightarrow> number \<Rightarrow> state \<Rightarrow> state \<times> response" where
  "put_price param price st =
     (case findIndex (\<lambda>p. loose_eq (p_id p) param) (products st) of
        None \<Rightarrow> (st, (404, Error ''Producto no encontrado''))
      | Some index \<Rightarrow>
          let st1 = st\<lparr>products := (products st)[index := (products st ! index)\<lparr>p_price := price\<rparr>]\<rparr>;
              st2 = st1\<lparr>products_file := products st1\<rparr>
          in (st2, (200, PriceUpdated ''Precio actualizado'' (products st2 ! index))))"

definition delete_user :: "int option \<Rightarrow> state \<Rightarrow> state \<times> response" where
  "delete_user param st =
     (let userSales = filter (\<lambda>s. loose_eq (s_userId s) param) (sales st)
      in if length userSales > 0
         then (st, (400, Error ''No se puede eliminar el usuario con ventas registradas''))
         else
           (case findIndex (\<lambda>u. loose_eq (u_id u) param) (users st) of
              None \<Rightarrow> (st, (404, Error ''Usuario no encontrado''))
            | Some index \<Rightarrow>
                let st1 = st\<lparr>users := splice1 index (users st)\<rparr>;
                    st2 = st1\<lparr>users_file := users st1\<rparr>
                in (st2, (200, Message ''Usuario eliminado correctamente''))))"

definition get_sales :: "state \<Rightarrow> state \<times> response" where
  "get_sales st = (st, (200, Sales (sales st)))"

definition get_root :: "state \<Rightarrow> state \<times> response" where
  "get_root st = (st, (200, Info ''API E-commerce TechStore'' ''2.0''))"

section \<open>The routes of the first version of the server\<close>

text \<open>
  The first version of \<^verbatim>\<open>index.js\<close> has no authentication. Its \<^verbatim>\<open>PUT /products/:id\<close> and
  \<^verbatim>\<open>DELETE /users/:id\<close> are the handlers above without the middleware; its
  \<^verbatim>\<open>POST /orders\<close> takes the buyer from the body and creates the user when the email is
  new; \<^verbatim>\<open>POST /users\<close> and \<^verbatim>\<open>POST /sales\<close> exist in this version only.
\<close>

record buyer =
  b_name :: "string option"
  b_email :: "string option"
  b_phone :: "string option"
  b_address :: "string option"

text \<open>
  The loop and what follows it are those of the second version (there \<^verbatim>\<open>newSales\<close> is
  not empty, since \<^verbatim>\<open>items\<close> is not).
\<close>

definition orders_v1 :: "lib \<Rightarrow> buyer option \<Rightarrow> item list option \<Rightarrow> state \<Rightarrow> state \<times> response" where
  "orders_v1 l user items st =
     (case (user, items) of
        (Some usr, Some (it # rest)) \<Rightarrow>
          let (currentUser, st2) =
                (case List.find (\<lambda>u. u_email u = b_email usr) (users st) of
                   Some found \<Rightarrow> (found, st)
                 | None \<Rightarrow>
                     let created = \<lparr> u_id = int (length (users st)) + 1,
                                      u_name = b_name usr,
                                      u_email = b_email usr,
                                      u_password = None,
                                      u_phone = b_phone usr,
                                      u_address = b_address usr,
                                      u_role = Some ''customer'' \<rparr>;
                         st1 = st\<lparr>users := users st @ [created]\<rparr>
                     in (created, st1\<lparr>users_file := users st1\<rparr>))
          in (case order_loop (now l) (u_id currentUser) (length (sales st2)) (it # rest)
                     (products st2) [] 0 of
                (ps, Inl msg) \<Rightarrow> (st2\<lparr>products := ps\<rparr>, (400, Error msg))
              | (ps, Inr (newSales, orderTotal)) \<Rightarrow>
                  finish_order currentUser newSales orderTotal (st2\<lparr>products := ps\<rparr>))
      | _ \<Rightarrow> (st, (400, Error ''Datos incompletos'')))"

text \<open>\<^verbatim>\<open>POST /users\<close>: the body is stored as the user, with its id and role overwritten.\<close>

definition post_users :: "user \<Rightarrow> state \<Rightarrow> state \<times> response" where
  "post_users newUser st =
     (let newUser1 = newUser\<lparr>u_id := int (length (users st)) + 1\<rparr>;
          newUser2 = newUser1\<lparr>u_role := Some ''customer''\<rparr>;
          st1 = st\<lparr>users := users st @ [newUser2]\<rparr>;
          st2 = st1\<lparr>users_file := users st1\<rparr>
      in (st2, (201, UserCreated ''Usuario creado'' newUser2)))"

definition post_sales :: "lib \<Rightarrow> int \<Rightarrow> int \<Rightarrow> number \<Rightarrow> state \<Rightarrow> state \<times> response" where
  "post_sales l userId productId quantity st =
     (case (List.find (\<lambda>u. u_id u = userId) (users st), find_product productId (products st)) of
        (Some user, Some product) \<Rightarrow>
          let newSale = \<lparr> s_id = int (length (sales st)) + 1,
                          s_userId = userId,
                          s_productId = productId,
                          s_quantity = quantity,
                          s_total = p_price product * quantity,
                          s_date = now l 0 \<rparr>;
              st1 = st\<lparr>sales := sales st @ [newSale]\<rparr>;
              st2 = st1\<lparr>sales_file := sales st1\<rparr>
          in (st2, (201, SaleRegistered ''Venta registrada'' newSale))
      | _ \<Rightarrow> (st, (400, Error ''Usuario o producto invalido'')))"

section \<open>Requests\<close>

text \<open>
  A request names its route and carries what the route reads: the
  \<^verbatim>\<open>Authorization\<close> header of a protected route, the route parameter, the fields of the
  body. The server handles one request after the other.
\<close>

datatype request =
    GetProducts
  | GetProduct "int option"
  | GetCategories
  | PostRegister "string option" "string option" "string option" "string option" "string option"
  | PostLogin "string option" "string option"
  | PostOrders "string option" "item list option"
  | GetMyOrders "string option"
  | GetProfile "string option"
  | PutProfile "string option" "string option" "string option" "string option"
  | PutProduct "string option" "int option" number
  | DeleteUser "string option" "int option"
  | GetSales "string option"
  | GetRoot
  | V1PostOrders "buyer option" "item list option"
  | V1PostUsers user
  | V1PostSales int int number
  | V1PutProduct "int option" number
  | V1DeleteUser "int option"

fun handle :: "lib \<Rightarrow> request \<Rightarrow> state \<Rightarrow> state \<times> response" where
  "handle l GetProducts st = get_products st"
| "handle l (GetProduct param) st = get_product param st"
| "handle l GetCategories st = get_categories st"
| "handle l (PostRegister name email password phone address) st =
     register l name email password phone address st"
| "handle l (PostLogin email password) st = login l email password st"
| "handle l (PostOrders authHeader items) st =
     protected l authHeader (\<lambda>cl. orders l cl items) st"
| "handle l (GetMyOrders authHeader) st = protected l authHeader my_orders st"
| "handle l (GetProfile authHeader) st = protected l authHeader get_profile st"
| "handle l (PutProfile authHeader name phone address) st =
     protected l authHeader (\<lambda>cl. put_profile cl name phone address) st"
| "handle l (PutProduct authHeader param price) st =
     admin l authHeader (put_price param price) st"
| "handle l (DeleteUser authHeader param) st = admin l authHeader (delete_user param) st"
| "handle l (GetSales authHeader) st = admin l authHeader get_sales st"
| "handle l GetRoot st = get_root st"
| "handle l (V1PostOrders user items) st = orders_v1 l user items st"
| "handle l (V1PostUsers newUser) st = post_users newUser st"
| "handle l (V1PostSales userId productId quantity) st =
     post_sales l userId productId quantity st"
| "handle l (V1PutProduct param price) st = put_price param price st"
| "handle l (V1DeleteUser param) st = delete_user param st"

section \<open>Notions used to state the properties\<close>

text \<open>Every product's stock is non-negative.\<close>

definition stock_ok :: "product list \<Rightarrow> bool" where
  "stock_ok ps = list_all (\<lambda>p. 0 \<le> p_stock p) ps"

text \<open>The quantity that the lines of a cart order of the product with a given id.\<close>

definition ordered :: "int \<Rightarrow> item list \<Rightarrow> number" where
  "ordered pid its = sum_list (map i_quantity (filter (\<lambda>it. i_id it = pid) its))"

text \<open>
  A line is within the stock that the earlier lines of the same cart leave: its product
  id is known, and its quantity is at most the product's stock less the quantity that
  the lines before it order of the same product.
\<close>

definition line_ok :: "product list \<Rightarrow> item list \<Rightarrow> nat \<Rightarrow> bool" where
  "line_ok ps its k =
     (case find_product (i_id (its ! k)) ps of
        None \<Rightarrow> False
      | Some p \<Rightarrow> i_quantity (its ! k) \<le> p_stock p - ordered (i_id (its ! k)) (take k its))"

definition valid_order :: "product list \<Rightarrow> item list \<Rightarrow> bool" where
  "valid_order ps its = list_all (line_ok ps its) [0..<length its]"

text \<open>
  Validity in the words of the specification: every product id is known and every
  quantity is at most the product's stock at the time of the request.
\<close>

definition line_in_stock :: "product list \<Rightarrow> item \<Rightarrow> bool" where
  "line_in_stock ps it =
     (case find_product (i_id it) ps of
        None \<Rightarrow> False
      | Some p \<Rightarrow> i_quantity it \<le> p_stock p)"

definition spec_valid_order :: "product list \<Rightarrow> item list \<Rightarrow> bool" where
  "spec_valid_order ps its = list_all (line_in_stock ps) its"

text \<open>Every line of the cart has a numeric quantity, and a request whose cart is such.\<close>

definition numeric_cart :: "item list \<Rightarrow> bool" where
  "numeric_cart its = list_all (\<lambda>it. i_quantity it \<noteq> NaN) its"

fun numeric_request :: "request \<Rightarrow> bool" where
  "numeric_request (PostOrders authHeader (Some its)) = numeric_cart its"
| "numeric_request (V1PostOrders user (Some its)) = numeric_cart its"
| "numeric_request req = True"

text \<open>The state after a sequence of requests, handled one after the other.\<close>

definition run :: "lib \<Rightarrow> request list \<Rightarrow> state \<Rightarrow> state" where
  "run l reqs st = foldl (\<lambda>s req. fst (handle l req s)) st reqs"

section \<open>Example data\<close>

text \<open>
  Stand-ins for the libraries, a catalog of two products, two users and no sales, and
  the payloads of four tokens. The token of a payload is written from its id and email,
  and \<^verbatim>\<open>jwt.verify\<close> accepts the tokens of these four payloads.
\<close>

definition ana :: claim where
  "ana = \<lparr> c_id = 1, c_email = Some ''ana@shop.test'', c_role = Some ''customer'' \<rparr>"

definition root :: claim where
  "root = \<lparr> c_id = 2, c_email = Some ''root@shop.test'', c_role = Some ''admin'' \<rparr>"

definition leo :: claim where
  "leo = \<lparr> c_id = 4, c_email = Some ''leo@shop.test'', c_role = Some ''customer'' \<rparr>"

definition mia :: claim where
  "mia = \<lparr> c_id = 4, c_email = Some ''mia@shop.test'', c_role = Some ''customer'' \<rparr>"

definition token :: "claim \<Rightarrow> string" where
  "token cl = ''t'' @ show_int (c_id cl) @ ''.'' @ (case c_email cl of None \<Rightarrow> [] | Some e \<Rightarrow> e)"

definition lib0 :: lib where
  "lib0 = \<lparr> bcrypt_hash = (\<lambda>pw. ''#'' @ pw),
            bcrypt_compare = (\<lambda>pw h. h = ''#'' @ pw),
            jwt_sign = token,
            jwt_verify = (\<lambda>t. if t = token ana then Some ana
                                else if t = token root then Some root
                                else if t = token leo then Some leo
                                else if t = token mia then Some mia else None),
            now = (\<lambda>i. ''2024-01-01T00:00:0'' @ show_nat i @ ''.000Z'') \<rparr>"

text \<open>The \<^verbatim>\<open>Authorization\<close> header that carries the token of a payload.\<close>

definition bearer :: "claim \<Rightarrow> string option" where
  "bearer cl = Some (''Bearer '' @ token cl)"

definition keyboard :: product where
  "keyboard = \<lparr> p_id = 1, p_name = ''Teclado'', p_category = ''perifericos'',
                p_price = Num 100, p_stock = Num 3, p_image = ''teclado.png'' \<rparr>"

definition monitor :: product where
  "monitor = \<lparr> p_id = 2, p_name = ''Monitor'', p_category = ''pantallas'',
               p_price = Num 50, p_stock = Num 1, p_image = ''monitor.png'' \<rparr>"

definition ana_user :: user where
  "ana_user = \<lparr> u_id = 1, u_name = Some ''Ana'', u_email = Some ''ana@shop.test'',
                u_password = Some ''#secreto'', u_phone = Some [], u_address = Some [],
                u_role = Some ''customer'' \<rparr>"

definition root_user :: user where
  "root_user = \<lparr> u_id = 2, u_name = Some ''Root'', u_email = Some ''root@shop.test'',
                 u_password = Some ''#admin123'', u_phone = Some [], u_address = Some [],
                 u_role = Some ''admin'' \<rparr>"

definition shop :: state where
  "shop = \<lparr> products = [keyboard, monitor], users = [ana_user, root_user], sales = [],
            products_file = [keyboard, monitor], users_file = [ana_user, root_user],
            sales_file = [] \<rparr>"

definition line :: "int \<Rightarrow> int \<Rightarrow> item" where
  "line pid q = \<lparr> i_id = pid, i_quantity = Num q \<rparr>"

text \<open>A third user, as registration stores her.\<close>

definition eva_user :: user where
  "eva_user = \<lparr> u_id = 3, u_name = Some ''Eva'', u_email = Some ''eva@shop.test'',
                u_password = Some ''#clave'', u_phone = Some [], u_address = Some ''Calle 1'',
                u_role = Some ''customer'' \<rparr>"

text \<open>The same shop after Ana has bought two keyboards.\<close>

definition ana_sale :: sale where
  "ana_sale = \<lparr> s_id = 1, s_userId = 1, s_productId = 1, s_quantity = Num 2,
                s_total = Num 200, s_date = ''2024-01-01T00:00:00.000Z'' \<rparr>"

definition sold :: state where
  "sold = \<lparr> products = [keyboard\<lparr>p_stock := Num 1\<rparr>, monitor],
            users = [ana_user, root_user], sales = [ana_sale],
            products_file = [keyboard\<lparr>p_stock := Num 1\<rparr>, monitor],
            users_file = [ana_user, root_user], sales_file = [ana_sale] \<rparr>"

text \<open>
  The shop after an order of the first version of the server from a buyer whose email is
  new: the order creates the user, without a password.
\<close>

definition eva_buyer :: buyer where
  "eva_buyer = \<lparr> b_name = Some ''Eva'', b_email = Some ''eva@shop.test'',
                 b_phone = None, b_address = Some ''Calle 1'' \<rparr>"

definition with_guest :: state where
  "with_guest = run lib0 [V1PostOrders (Some eva_buyer) (Some [line 2 1])] shop"

text \<open>
  The shop after Eva and Leo have registered (ids 3 and 4), the administrator has deleted
  Eva, and Mia has registered: Mia's id is the number of users plus one, 4 again.
\<close>

definition with_reused_id :: state where
  "with_reused_id =
     run lib0
       [PostRegister (Some ''Eva'') (Some ''eva@shop.test'') (Some ''clave'') None None,
        PostRegister (Some ''Leo'') (Some ''leo@shop.test'') (Some ''clave-leo'')
          (Some ''111'') None,
        DeleteUser (bearer root) (Some 3),
        PostRegister (Some ''Mia'') (Some ''mia@shop.test'') (Some ''clave-mia'') None None]
       shop"

section \<open>Facts about numbers\<close>

lemma number_minus_zero: "a - 0 = (a::number)"
  by (cases a) (simp_all add: zero_number_def)

lemma number_minus_minus: "a - b - c = a - (b + c)" for a b c :: number
  by (cases a; cases b; cases c) simp_all

lemma number_le_not_less: "a \<le> b \<Longrightarrow> \<not> b < a" for a b :: number
  by (cases a; cases b) simp_all

lemma number_nonneg_minus:
  "0 \<le> s \<Longrightarrow> \<not> s < q \<Longrightarrow> q \<noteq> NaN \<Longrightarrow> 0 \<le> s - q" for s q :: number
  by (cases s; cases q) (simp_all add: zero_number_def)

section \<open>Facts about the helpers and the order loop\<close>

lemma find_product_dec_stock:
  "find_product pid (dec_stock pid' q ps) =
     map_option (\<lambda>p. if pid = pid' then p\<lparr>p_stock := p_stock p - q\<rparr> else p) (find_product pid ps)"
  by (induction ps) (auto simp: find_product_def dec_stock_def option.map_ident)

lemma stock_ok_dec_stock:
  "stock_ok ps \<Longrightarrow> find_product pid ps = Some p \<Longrightarrow> \<not> p_stock p < q \<Longrightarrow> q \<noteq> NaN
     \<Longrightarrow> stock_ok (dec_stock pid q ps)"
  by (induction ps)
     (auto simp: find_product_def dec_stock_def stock_ok_def number_nonneg_minus split: if_splits)

lemma order_loop_stock_ok:
  "stock_ok ps \<Longrightarrow> numeric_cart its \<Longrightarrow> stock_ok (fst (order_loop clock uid n its ps ns t))"
proof (induction its arbitrary: ps ns t)
  case Nil
  then show ?case by simp
next
  case (Cons it rest)
  from Cons.prems(2) have num: "i_quantity it \<noteq> NaN" and rest: "numeric_cart rest"
    by (simp_all add: numeric_cart_def)
  show ?case
  proof (cases "find_product (i_id it) ps")
    case None
    with Cons.prems show ?thesis by simp
  next
    case (Some p)
    show ?thesis
    proof (cases "p_stock p < i_quantity it")
      case True
      with Some Cons.prems show ?thesis by simp
    next
      case False
      then have "stock_ok (dec_stock (i_id it) (i_quantity it) ps)"
        using Some Cons.prems(1) num by (simp add: stock_ok_dec_stock)
      then show ?thesis using Some False rest by (simp add: Let_def Cons.IH)
    qed
  qed
qed

lemma order_loop_sales:
  "order_loop clock uid n its ps ns t = (ps', Inr (ns', t')) \<Longrightarrow>
     \<exists>new. ns' = ns @ new \<and> length new = length its \<and> t' = t + sum_list (map s_total new)
       \<and> (\<forall>k<length its. s_id (new ! k) = int n + int (length ns) + int k + 1
             \<and> s_date (new ! k) = clock (length ns + k)
             \<and> s_userId (new ! k) = uid
             \<and> s_productId (new ! k) = i_id (its ! k)
             \<and> s_quantity (new ! k) = i_quantity (its ! k))"
proof (induction its arbitrary: ps ns t)
  case Nil
  then show ?case by simp
next
  case (Cons it rest)
  from Cons.prems obtain p where p: "find_product (i_id it) ps = Some p"
    and ge: "\<not> p_stock p < i_quantity it"
    by (auto split: option.splits if_splits)
  define sl where "sl = \<lparr> s_id = int n + int (length ns) + 1, s_userId = uid,
     s_productId = p_id p, s_quantity = i_quantity it, s_total = p_price p * i_quantity it,
     s_date = clock (length ns) \<rparr>"
  have pid: "p_id p = i_id it"
    using p by (auto simp: find_product_def find_Some_iff)
  from Cons.prems p ge
  have "order_loop clock uid n rest (dec_stock (i_id it) (i_quantity it) ps) (ns @ [sl])
          (t + p_price p * i_quantity it) = (ps', Inr (ns', t'))"
    by (simp add: Let_def sl_def)
  from Cons.IH [OF this] obtain new where new: "ns' = (ns @ [sl]) @ new" "length new = length rest"
     "t' = t + p_price p * i_quantity it + sum_list (map s_total new)"
     "\<forall>k<length rest. s_id (new ! k) = int n + int (length (ns @ [sl])) + int k + 1
             \<and> s_date (new ! k) = clock (length (ns @ [sl]) + k)
             \<and> s_userId (new ! k) = uid
             \<and> s_productId (new ! k) = i_id (rest ! k)
             \<and> s_quantity (new ! k) = i_quantity (rest ! k)"
    by blast
  have "\<forall>k<length (it # rest). s_id ((sl # new) ! k) = int n + int (length ns) + int k + 1
             \<and> s_date ((sl # new) ! k) = clock (length ns + k)
             \<and> s_userId ((sl # new) ! k) = uid
             \<and> s_productId ((sl # new) ! k) = i_id ((it # rest) ! k)
             \<and> s_quantity ((sl # new) ! k) = i_quantity ((it # rest) ! k)"
  proof (intro allI impI)
    fix k assume k: "k < length (it # rest)"
    show "s_id ((sl # new) ! k) = int n + int (length ns) + int k + 1
             \<and> s_date ((sl # new) ! k) = clock (length ns + k)
             \<and> s_userId ((sl # new) ! k) = uid
             \<and> s_productId ((sl # new) ! k) = i_id ((it # rest) ! k)
             \<and> s_quantity ((sl # new) ! k) = i_quantity ((it # rest) ! k)"
    proof (cases k)
      case 0
      then show ?thesis by (simp add: sl_def pid)
    next
      case (Suc j)
      with k have "j < length rest" by simp
      with new(4) Suc show ?thesis by simp
    qed
  qed
  moreover have "ns' = ns @ (sl # new)" using new(1) by simp
  moreover have "length (sl # new) = length (it # rest)" using new(2) by simp
  moreover have "t' = t + sum_list (map s_total (sl # new))"
    using new(3) by (simp add: sl_def add.assoc)
  ultimately show ?case by blast
qed


lemma order_loop_totals:
  "order_loop clock uid n its ps ns t = (ps', Inr (ns', t')) \<Longrightarrow> k < length its \<Longrightarrow>
     \<exists>p. find_product (i_id (its ! k)) ps = Some p
       \<and> s_total (ns' ! (length ns + k)) = p_price p * i_quantity (its ! k)"
proof (induction its arbitrary: ps ns t k)
  case Nil
  then show ?case by simp
next
  case (Cons it rest)
  from Cons.prems(1) obtain p where p: "find_product (i_id it) ps = Some p"
    and ge: "\<not> p_stock p < i_quantity it"
    by (auto split: option.splits if_splits)
  define sl where "sl = \<lparr> s_id = int n + int (length ns) + 1, s_userId = uid,
     s_productId = p_id p, s_quantity = i_quantity it, s_total = p_price p * i_quantity it,
     s_date = clock (length ns) \<rparr>"
  from Cons.prems(1) p ge
  have run: "order_loop clock uid n rest (dec_stock (i_id it) (i_quantity it) ps) (ns @ [sl])
          (t + p_price p * i_quantity it) = (ps', Inr (ns', t'))"
    by (simp add: Let_def sl_def)
  show ?case
  proof (cases k)
    case 0
    from order_loop_sales [OF run] obtain new where "ns' = (ns @ [sl]) @ new" by blast
    then have "ns' ! length ns = sl" by simp
    with 0 p show ?thesis by (simp add: sl_def)
  next
    case (Suc j)
    with Cons.prems(2) have j: "j < length rest" by simp
    from Cons.IH [OF run j] obtain p' where
      p': "find_product (i_id (rest ! j)) (dec_stock (i_id it) (i_quantity it) ps) = Some p'"
      and tot: "s_total (ns' ! (length (ns @ [sl]) + j)) = p_price p' * i_quantity (rest ! j)"
      by blast
    from p' obtain p0 where p0: "find_product (i_id (rest ! j)) ps = Some p0"
      and "p_price p' = p_price p0"
      by (auto simp: find_product_dec_stock split: if_splits)
    with tot Suc show ?thesis by simp
  qed
qed

lemma ordered_Cons:
  "ordered pid (it # rest) = (if i_id it = pid then i_quantity it else 0) + ordered pid rest"
  by (simp add: ordered_def)

lemma order_loop_products:
  "order_loop clock uid n its ps ns t = (ps', Inr r) \<Longrightarrow>
     find_product pid ps' =
       map_option (\<lambda>p. p\<lparr>p_stock := p_stock p - ordered pid its\<rparr>) (find_product pid ps)"
proof (induction its arbitrary: ps ns t)
  case Nil
  then show ?case by (simp add: ordered_def number_minus_zero option.map_ident)
next
  case (Cons it rest)
  from Cons.prems obtain p where p: "find_product (i_id it) ps = Some p"
    and ge: "\<not> p_stock p < i_quantity it"
    by (auto split: option.splits if_splits)
  from Cons.prems p ge obtain ns1 t1 where
    "order_loop clock uid n rest (dec_stock (i_id it) (i_quantity it) ps) ns1 t1 = (ps', Inr r)"
    by (simp add: Let_def)
  from Cons.IH [OF this]
  have "find_product pid ps' =
          map_option (\<lambda>p. p\<lparr>p_stock := p_stock p - ordered pid rest\<rparr>)
            (find_product pid (dec_stock (i_id it) (i_quantity it) ps))" .
  then show ?case
    by (cases "find_product pid ps")
       (auto simp: find_product_dec_stock ordered_Cons number_minus_minus)
qed

lemma order_loop_frame:
  "map (\<lambda>p. p\<lparr>p_stock := 0\<rparr>) (fst (order_loop clock uid n its ps ns t)) = map (\<lambda>p. p\<lparr>p_stock := 0\<rparr>) ps"
proof (induction its arbitrary: ps ns t)
  case Nil
  then show ?case by simp
next
  case (Cons it rest)
  have dec: "map (\<lambda>p. p\<lparr>p_stock := 0\<rparr>) (dec_stock pid q qs) = map (\<lambda>p. p\<lparr>p_stock := 0\<rparr>) qs" for pid q qs
    by (induction qs) (auto simp: dec_stock_def)
  show ?case
    by (auto simp: Let_def Cons.IH dec split: option.splits)
qed

lemma valid_order_all: "valid_order ps its = (\<forall>k<length its. line_ok ps its k)"
  by (auto simp: valid_order_def list_all_iff)

lemma valid_order_Cons:
  "valid_order ps (it # rest) =
     ((\<exists>p. find_product (i_id it) ps = Some p \<and> i_quantity it \<le> p_stock p)
      \<and> valid_order (dec_stock (i_id it) (i_quantity it) ps) rest)"
proof -
  have zero: "line_ok ps (it # rest) 0 = (\<exists>p. find_product (i_id it) ps = Some p \<and> i_quantity it \<le> p_stock p)"
    by (auto simp: line_ok_def ordered_def number_minus_zero split: option.splits)
  have suc: "line_ok ps (it # rest) (Suc k) = line_ok (dec_stock (i_id it) (i_quantity it) ps) rest k" for k
    by (cases "find_product (i_id (rest ! k)) ps")
       (auto simp: line_ok_def find_product_dec_stock ordered_Cons number_minus_minus)
  have "valid_order ps (it # rest) = (line_ok ps (it # rest) 0 \<and> (\<forall>k<length rest. line_ok ps (it # rest) (Suc k)))"
    unfolding valid_order_all by (auto simp: less_Suc_eq_0_disj)
  then show ?thesis by (simp add: zero suc valid_order_all)
qed

lemma valid_order_runs:
  "valid_order ps its \<Longrightarrow> \<exists>ps' ns' t'. order_loop clock uid n its ps ns t = (ps', Inr (ns', t'))"
proof (induction its arbitrary: ps ns t)
  case Nil
  then show ?case by simp
next
  case (Cons it rest)
  from Cons.prems obtain p where p: "find_product (i_id it) ps = Some p" "i_quantity it \<le> p_stock p"
    and rest: "valid_order (dec_stock (i_id it) (i_quantity it) ps) rest"
    by (auto simp: valid_order_Cons)
  from p(2) have "\<not> p_stock p < i_quantity it" by (rule number_le_not_less)
  with Cons.IH [OF rest] p show ?case by (simp add: Let_def)
qed

lemma findIndex_Some:
  "findIndex P xs = Some i \<Longrightarrow> i < length xs \<and> P (xs ! i) \<and> (\<forall>j<i. \<not> P (xs ! j))"
proof (induction xs arbitrary: i)
  case Nil
  then show ?case by simp
next
  case (Cons x xs)
  show ?case
  proof (cases "P x")
    case True
    with Cons.prems show ?thesis by simp
  next
    case False
    with Cons.prems obtain i' where i': "findIndex P xs = Some i'" "i = Suc i'"
      by auto
    from Cons.IH [OF i'(1)] False i'(2) show ?thesis
      by (auto simp: less_Suc_eq_0_disj)
  qed
qed

lemma findIndex_None: "findIndex P xs = None \<Longrightarrow> \<forall>x\<in>set xs. \<not> P x"
  by (induction xs) (auto split: if_splits)

lemma finish_order_products: "products (fst (finish_order u ns t st)) = products st"
  by (simp add: finish_order_def Let_def split: list.splits)

lemma orders_stock_ok:
  assumes "stock_ok (products st)"
    and "case items of None \<Rightarrow> True | Some its \<Rightarrow> numeric_cart its"
  shows "stock_ok (products (fst (orders l cl items st)))"
proof (cases items)
  case None
  with assms show ?thesis by (simp add: orders_def)
next
  case (Some its)
  with assms(2) have num: "numeric_cart its" by simp
  have loop: "stock_ok (fst (order_loop c uid n its (products st) [] 0))" for c uid n
    using assms(1) num by (rule order_loop_stock_ok)
  show ?thesis
  proof (cases "List.find (\<lambda>u. u_id u = c_id cl) (users st)")
    case None
    with Some assms show ?thesis by (simp add: orders_def split: list.splits)
  next
    case (Some currentUser) note cu = this
    obtain ps r where r: "order_loop (now l) (u_id currentUser) (length (sales st)) its (products st) [] 0 = (ps, r)"
      by (cases "order_loop (now l) (u_id currentUser) (length (sales st)) its (products st) [] 0")
    with loop [of "now l" "u_id currentUser" "length (sales st)"] have "stock_ok ps" by simp
    with \<open>items = Some its\<close> cu r assms(1) show ?thesis
      by (cases r) (auto simp: orders_def finish_order_products split: list.splits)
  qed
qed

lemma orders_v1_stock_ok:
  assumes "stock_ok (products st)"
    and "case items of None \<Rightarrow> True | Some its \<Rightarrow> numeric_cart its"
  shows "stock_ok (products (fst (orders_v1 l user items st)))"
proof (cases "\<exists>usr it rest. user = Some usr \<and> items = Some (it # rest)")
  case False
  with assms(1) show ?thesis
    by (auto simp: orders_v1_def split: option.splits list.splits)
next
  case True
  then obtain usr it rest where usr: "user = Some usr" and its: "items = Some (it # rest)"
    by blast
  with assms(2) have num: "numeric_cart (it # rest)" by simp
  have *: "stock_ok (products (fst (case order_loop c uid n (it # rest) (products st) [] 0 of
                (ps, Inl msg) \<Rightarrow> (st2\<lparr>products := ps\<rparr>, (400, Error msg))
              | (ps, Inr (newSales, orderTotal)) \<Rightarrow>
                  finish_order cu newSales orderTotal (st2\<lparr>products := ps\<rparr>))))" for c uid n st2 cu
  proof -
    obtain ps r where r: "order_loop c uid n (it # rest) (products st) [] 0 = (ps, r)"
      by (cases "order_loop c uid n (it # rest) (products st) [] 0")
    with order_loop_stock_ok [OF assms(1) num, of c uid n "[]" 0] have "stock_ok ps" by simp
    with r show ?thesis by (cases r) (auto simp: finish_order_products)
  qed
  show ?thesis
    using usr its
    by (auto simp: orders_v1_def Let_def * simp del: order_loop.simps split: option.splits)
qed

lemma put_price_stock_ok:
  "stock_ok (products st) \<Longrightarrow> stock_ok (products (fst (put_price param price st)))"
proof (cases "findIndex (\<lambda>p. loose_eq (p_id p) param) (products st)")
  case None
  assume "stock_ok (products st)"
  with None show ?thesis by (simp add: put_price_def)
next
  case (Some index)
  assume ok: "stock_ok (products st)"
  from findIndex_Some [OF Some] have "index < length (products st)" by simp
  with ok have "stock_ok ((products st)[index := (products st ! index)\<lparr>p_price := price\<rparr>])"
    by (auto simp: stock_ok_def list_all_iff dest!: set_update_subset_insert [THEN subsetD])
  with Some show ?thesis by (simp add: put_price_def Let_def)
qed

lemma protected_products:
  assumes "\<And>cl. stock_ok (products (fst (handler cl st)))" "stock_ok (products st)"
  shows "stock_ok (products (fst (protected l authHeader handler st)))"
  using assms by (simp add: protected_def split: sum.splits)

lemma admin_products:
  assumes "stock_ok (products (fst (handler st)))" "stock_ok (products st)"
  shows "stock_ok (products (fst (admin l authHeader handler st)))"
  using assms by (simp add: admin_def protected_def split: sum.splits option.splits)


text \<open>
  For requests whose carts have numeric quantities, non-negative stock stays non-negative:
  a line with a numeric quantity is decremented only after the check that the quantity
  does not exceed the stock.
\<close>

lemma handle_stock_ok_numeric:
  assumes "stock_ok (products st)" and "numeric_request req"
  shows "stock_ok (products (fst (handle l req st)))"
proof (cases req)
  case (PostOrders authHeader items)
  with assms(2) have "case items of None \<Rightarrow> True | Some its \<Rightarrow> numeric_cart its"
    by (cases items) simp_all
  with PostOrders assms(1) show ?thesis by (simp add: protected_products orders_stock_ok)
next
  case (V1PostOrders user items)
  with assms(2) have "case items of None \<Rightarrow> True | Some its \<Rightarrow> numeric_cart its"
    by (cases items) simp_all
  with V1PostOrders assms(1) show ?thesis by (simp add: orders_v1_stock_ok)
next
  case (PutProduct authHeader param price)
  then show ?thesis using assms by (simp add: admin_products put_price_stock_ok)
next
  case (V1PutProduct param price)
  then show ?thesis using assms by (simp add: put_price_stock_ok)
next
  case (PostRegister name email password phone address)
  then show ?thesis using assms by (simp add: register_def Let_def split: option.splits)
next
  case (PostLogin email password)
  then show ?thesis using assms by (simp add: login_def Let_def split: option.splits)
next
  case (PutProfile authHeader name phone address)
  then show ?thesis using assms
    by (simp add: protected_def put_profile_def Let_def split: sum.splits option.splits)
next
  case (DeleteUser authHeader param)
  then show ?thesis using assms
    by (simp add: admin_def protected_def delete_user_def Let_def split: sum.splits option.splits)
next
  case (V1DeleteUser param)
  then show ?thesis using assms
    by (simp add: delete_user_def Let_def split: option.splits)
next
  case (V1PostSales userId productId quantity)
  then show ?thesis using assms
    by (simp add: post_sales_def Let_def split: option.splits)
qed (use assms in \<open>simp_all add: get_products_def get_product_def get_categories_def
      protected_def admin_def my_orders_def get_profile_def get_sales_def get_root_def
      post_users_def Let_def split: sum.splits option.splits\<close>)

text \<open>
  Logins against an account that has a stored hash: an unknown email and a password that
  fails the comparison get the same response, and the login succeeds exactly when the
  comparison does.
\<close>

lemma login_with_stored_hash:
  assumes "truthy e1" "pw1 \<noteq> []" "truthy e2" "pw2 \<noteq> []"
    and "List.find (\<lambda>u. u_email u = e1) (users st1) = None"
    and "List.find (\<lambda>u. u_email u = e2) (users st2) = Some u"
    and "u_password u = Some h"
    and "\<not> bcrypt_compare l pw2 h"
  shows "snd (login l e1 (Some pw1) st1) = snd (login l e2 (Some pw2) st2)
     \<and> login l e1 (Some pw1) st1 = (st1, (401, Error ''Credenciales invalidas''))
     \<and> login l e2 (Some pw2) st2 = (st2, (401, Error ''Credenciales invalidas''))
     \<and> (\<forall>pw. pw \<noteq> [] \<longrightarrow>
          (fst (snd (login l e2 (Some pw) st2)) = 200) = bcrypt_compare l pw h)"
  using assms by (simp add: login_def)


text \<open>
  A profile update changes name, phone and address, where the submitted value is truthy,
  of the first user whose id is the token's id, and nothing else.
\<close>

lemma put_profile_first_match:
  assumes "put_profile cl name phone address st = (st', r)"
  shows "products st' = products st \<and> sales st' = sales st
     \<and> length (users st') = length (users st)
     \<and> (\<forall>j<length (users st).
          u_id (users st' ! j) = u_id (users st ! j)
          \<and> u_email (users st' ! j) = u_email (users st ! j)
          \<and> u_password (users st' ! j) = u_password (users st ! j)
          \<and> u_role (users st' ! j) = u_role (users st ! j)
          \<and> (if findIndex (\<lambda>u. u_id u = c_id cl) (users st) = Some j
             then u_name (users st' ! j) = (if truthy name then name else u_name (users st ! j))
                \<and> u_phone (users st' ! j) = (if truthy phone then phone else u_phone (users st ! j))
                \<and> u_address (users st' ! j) =
                    (if truthy address then address else u_address (users st ! j))
             else users st' ! j = users st ! j))"
proof (cases "findIndex (\<lambda>u. u_id u = c_id cl) (users st)")
  case None
  with assms have "st' = st" by (simp add: put_profile_def)
  with None show ?thesis by simp
next
  case (Some i)
  from findIndex_Some [OF Some] have i: "i < length (users st)" by simp
  define us where "us = users st"
  define v where "v = (us ! i)\<lparr> u_name := (if truthy name then name else u_name (us ! i)),
      u_phone := (if truthy phone then phone else u_phone (us ! i)),
      u_address := (if truthy address then address else u_address (us ! i)) \<rparr>"
  have "users st' = us[i := v]" "products st' = products st" "sales st' = sales st"
    using assms Some i by (auto simp: put_profile_def Let_def us_def v_def)
  then show ?thesis using Some i
    by (auto simp: us_def v_def nth_list_update)
qed


lemma orders_success:
  assumes "orders l cl items st = (st', (201, b))"
  obtains its u ps ns t where
    "items = Some its" "its \<noteq> []"
    "List.find (\<lambda>u. u_id u = c_id cl) (users st) = Some u"
    "order_loop (now l) (u_id u) (length (sales st)) its (products st) [] 0 = (ps, Inr (ns, t))"
    "(st', (201, b)) = finish_order u ns t (st\<lparr>products := ps\<rparr>)"
proof -
  from assms obtain its where its: "items = Some its" "its \<noteq> []"
    by (cases items) (auto simp: orders_def split: list.splits)
  from assms its obtain u where u: "List.find (\<lambda>u. u_id u = c_id cl) (users st) = Some u"
    by (cases "List.find (\<lambda>u. u_id u = c_id cl) (users st)") (auto simp: orders_def split: list.splits)
  obtain ps r where r: "order_loop (now l) (u_id u) (length (sales st)) its (products st) [] 0 = (ps, r)"
    by (cases "order_loop (now l) (u_id u) (length (sales st)) its (products st) [] 0")
  from assms its u r obtain ns t where "r = Inr (ns, t)"
    by (cases r) (auto simp: orders_def split: list.splits)
  with assms its u r have "(st', (201, b)) = finish_order u ns t (st\<lparr>products := ps\<rparr>)"
    by (auto simp: orders_def split: list.splits)
  with its u r \<open>r = Inr (ns, t)\<close> that show thesis by blast
qed

lemma orders_run:
  assumes "its \<noteq> []"
    and "List.find (\<lambda>u. u_id u = c_id cl) (users st) = Some u"
    and "order_loop (now l) (u_id u) (length (sales st)) its (products st) [] 0 = (ps, Inr (ns, t))"
  shows "orders l cl (Some its) st = finish_order u ns t (st\<lparr>products := ps\<rparr>)"
  using assms by (cases its) (simp_all add: orders_def del: order_loop.simps)

lemma find_email_Some:
  "email \<in> set (map u_email us) \<Longrightarrow> \<exists>u. List.find (\<lambda>u. u_email u = email) us = Some u"
  by (cases "List.find (\<lambda>u. u_email u = email) us") (auto simp: find_None_iff)

lemma findIndex_exists:
  "\<exists>x\<in>set xs. P x \<Longrightarrow> \<exists>i. findIndex P xs = Some i"
  by (cases "findIndex P xs") (auto dest: findIndex_None)

lemma find_in_set: "List.find P xs = Some x \<Longrightarrow> x \<in> set xs \<and> P x"
  by (auto simp: find_Some_iff)

lemma foldl_set_add:
  "distinct acc \<Longrightarrow> distinct (foldl set_add acc xs) \<and> set (foldl set_add acc xs) = set acc \<union> set xs"
  by (induction xs arbitrary: acc) auto

section \<open>Properties\<close>

text \<open>
  C1 (all-or-nothing rejection). The claim: an order with a line whose product is unknown
  or whose quantity exceeds the stock is rejected with 400 and leaves every product's
  stock and the sales unchanged. The handler decrements the stock of a line as soon as
  that line has passed its check, before it looks at the next line. For the cart of two
  keyboards and five monitors, with three keyboards and one monitor in stock, the answer
  is 400 and no sale is added, yet the stock of keyboards has gone from 3 to 1; the
  products file still holds the old stock.
\<close>

theorem orders_rejected_after_decrement:
  "snd (orders lib0 ana (Some [line 1 2, line 2 5]) shop) =
     (400, Error ''Stock insuficiente para Monitor. Disponible: 1'')
   \<and> sales (fst (orders lib0 ana (Some [line 1 2, line 2 5]) shop)) = sales shop
   \<and> map p_stock (products shop) = [Num 3, Num 1]
   \<and> map p_stock (products (fst (orders lib0 ana (Some [line 1 2, line 2 5]) shop))) = [Num 1, Num 1]
   \<and> map p_stock (products_file (fst (orders lib0 ana (Some [line 1 2, line 2 5]) shop))) = [Num 3, Num 1]"
  by (simp add: orders_def lib0_def shop_def ana_def ana_user_def root_user_def keyboard_def
      monitor_def line_def find_product_def dec_stock_def show_int_def show_nat.simps)

text \<open>
  C2 (effect of a valid order). The claim takes an order for valid when every product id
  is known and every quantity is at most the product's stock. The handler checks each
  line against the stock that the earlier lines of the same cart have left, so a cart
  that names a product twice can be valid in the claim's sense and still be rejected:
  two lines of two keyboards each, with three keyboards in stock.
\<close>

theorem orders_repeated_product_rejected:
  "spec_valid_order (products shop) [line 1 2, line 1 2]
   \<and> snd (orders lib0 ana (Some [line 1 2, line 1 2]) shop) =
       (400, Error ''Stock insuficiente para Teclado. Disponible: 1'')
   \<and> sales (fst (orders lib0 ana (Some [line 1 2, line 1 2]) shop)) = sales shop"
  by (simp add: spec_valid_order_def line_in_stock_def orders_def lib0_def shop_def ana_def
      ana_user_def root_user_def keyboard_def
      monitor_def line_def find_product_def dec_stock_def show_int_def show_nat.simps)

text \<open>
  C2, amended. For a non-empty cart sent by a user that exists, each line of which is
  within the stock left by the lines before it, the handler answers 201; the product
  found under each id has its stock reduced by the quantity the cart orders of that id,
  and nothing else of any product changes; one sale per line is appended, with the line's
  product, quantity and price times quantity; the reported total is the sum of the totals
  of the lines.
\<close>

theorem orders_valid_effect:
  assumes "its \<noteq> []"
    and "List.find (\<lambda>u. u_id u = c_id cl) (users st) = Some u"
    and "valid_order (products st) its"
  shows "\<exists>st' ord. orders l cl (Some its) st = (st', (201, OrderCreated ''Orden creada exitosamente'' ord))
      \<and> (\<forall>pid. find_product pid (products st') =
            map_option (\<lambda>p. p\<lparr>p_stock := p_stock p - ordered pid its\<rparr>) (find_product pid (products st)))
      \<and> map (\<lambda>p. p\<lparr>p_stock := 0\<rparr>) (products st') = map (\<lambda>p. p\<lparr>p_stock := 0\<rparr>) (products st)
      \<and> users st' = users st
      \<and> sales st' = sales st @ o_items ord
      \<and> length (o_items ord) = length its
      \<and> (\<forall>k<length its. s_productId (o_items ord ! k) = i_id (its ! k)
            \<and> s_quantity (o_items ord ! k) = i_quantity (its ! k)
            \<and> (\<exists>p. find_product (i_id (its ! k)) (products st) = Some p
                  \<and> s_total (o_items ord ! k) = p_price p * i_quantity (its ! k)))
      \<and> o_total ord = sum_list (map s_total (o_items ord))"
proof -
  from valid_order_runs [OF assms(3)] obtain ps ns t where
    run: "order_loop (now l) (u_id u) (length (sales st)) its (products st) [] 0 = (ps, Inr (ns, t))"
    by blast
  from order_loop_sales [OF run] have len: "length ns = length its"
    and tot: "t = sum_list (map s_total ns)"
    and lines: "\<forall>k<length its. s_productId (ns ! k) = i_id (its ! k) \<and> s_quantity (ns ! k) = i_quantity (its ! k)"
    by auto
  from len assms(1) obtain first more where ns: "ns = first # more" by (cases ns) auto
  define ord where "ord = \<lparr> o_id = s_id first, o_userId = u_id u, o_userName = u_name u,
      o_items = ns, o_total = t, o_date = s_date first \<rparr>"
  define st' where "st' = fst (finish_order u ns t (st\<lparr>products := ps\<rparr>))"
  have res: "orders l cl (Some its) st = (st', (201, OrderCreated ''Orden creada exitosamente'' ord))"
    using orders_run [OF assms(1,2) run] ns by (simp add: st'_def ord_def finish_order_def)
  have st': "products st' = ps" "users st' = users st" "sales st' = sales st @ ns"
    using ns by (simp_all add: st'_def finish_order_def)
  have prods: "\<forall>pid. find_product pid ps =
            map_option (\<lambda>p. p\<lparr>p_stock := p_stock p - ordered pid its\<rparr>) (find_product pid (products st))"
    using order_loop_products [OF run] by blast
  have frame: "map (\<lambda>p. p\<lparr>p_stock := 0\<rparr>) ps = map (\<lambda>p. p\<lparr>p_stock := 0\<rparr>) (products st)"
    using order_loop_frame [of "now l" "u_id u" "length (sales st)" its "products st" "[]" 0] run by simp
  have totals: "\<forall>k<length its. \<exists>p. find_product (i_id (its ! k)) (products st) = Some p
                  \<and> s_total (ns ! k) = p_price p * i_quantity (its ! k)"
    using order_loop_totals [OF run] by simp
  show ?thesis
    using res st' prods frame len lines totals tot
    by (intro exI [of _ st'] exI [of _ ord]) (simp add: ord_def)
qed

theorem orders_valid_effect_witness:
  "[line 1 2] \<noteq> []
   \<and> List.find (\<lambda>u. u_id u = c_id ana) (users shop) = Some ana_user
   \<and> valid_order (products shop) [line 1 2]
   \<and> (\<exists>st' ord. orders lib0 ana (Some [line 1 2]) shop =
          (st', (201, OrderCreated ''Orden creada exitosamente'' ord))
        \<and> find_product 1 (products st') = Some (keyboard\<lparr>p_stock := Num 1\<rparr>)
        \<and> sales st' = sales shop @ o_items ord
        \<and> length (o_items ord) = 1
        \<and> s_total (o_items ord ! 0) = Num 200
        \<and> o_total ord = Num 200)"
proof -
  have h1: "[line 1 2] \<noteq> []" by simp
  have h2: "List.find (\<lambda>u. u_id u = c_id ana) (users shop) = Some ana_user"
    by (simp add: shop_def ana_def ana_user_def)
  have h3: "valid_order (products shop) [line 1 2]"
    by (simp add: valid_order_def line_ok_def shop_def keyboard_def line_def find_product_def
        ordered_def number_minus_zero)
  have k: "find_product 1 (products shop) = Some keyboard"
    by (simp add: find_product_def shop_def keyboard_def)
  have o: "ordered 1 [line 1 2] = Num 2"
    by (simp add: ordered_def line_def)
  from orders_valid_effect [OF h1 h2 h3, of lib0] obtain st' ord where
    r: "orders lib0 ana (Some [line 1 2]) shop =
          (st', (201, OrderCreated ''Orden creada exitosamente'' ord))"
    and p: "find_product 1 (products st') =
            map_option (\<lambda>p. p\<lparr>p_stock := p_stock p - ordered 1 [line 1 2]\<rparr>) (find_product 1 (products shop))"
    and s: "sales st' = sales shop @ o_items ord" "length (o_items ord) = length [line 1 2]"
    and t: "\<exists>p. find_product (i_id ([line 1 2] ! 0)) (products shop) = Some p
                  \<and> s_total (o_items ord ! 0) = p_price p * i_quantity ([line 1 2] ! 0)"
           "o_total ord = sum_list (map s_total (o_items ord))"
    by auto
  from s(2) obtain x where x: "o_items ord = [x]"
    by (cases "o_items ord") auto
  from t(1) k have "s_total (o_items ord ! 0) = Num 200"
    by (simp add: line_def keyboard_def)
  moreover from this t(2) x have "o_total ord = Num 200" by simp
  moreover from p k o have "find_product 1 (products st') = Some (keyboard\<lparr>p_stock := Num 1\<rparr>)"
    by (simp add: keyboard_def)
  ultimately show ?thesis using h1 h2 h3 r s x by auto
qed

text \<open>
  C3 (stock never negative). The claim: whatever the request, if every product's stock is
  non-negative before it, every product's stock is non-negative after it. The check
  \<^verbatim>\<open>product.stock < item.quantity\<close> is false when the quantity is missing or not numeric,
  so such a line passes, and \<^verbatim>\<open>product.stock -= item.quantity\<close> leaves \<open>NaN\<close>: for the cart
  \<^verbatim>\<open>[{id: 1}]\<close> the answer is 201, and the stock of keyboards, 3 before, is no number
  after, in memory and in the products file.
\<close>

theorem orders_missing_quantity_breaks_stock:
  "stock_ok (products shop)
   \<and> fst (snd (handle lib0 (PostOrders (bearer ana) (Some [\<lparr>i_id = 1, i_quantity = NaN\<rparr>])) shop)) = 201
   \<and> map p_stock (products (fst (handle lib0
        (PostOrders (bearer ana) (Some [\<lparr>i_id = 1, i_quantity = NaN\<rparr>])) shop))) = [NaN, Num 1]
   \<and> map p_stock (products_file (fst (handle lib0
        (PostOrders (bearer ana) (Some [\<lparr>i_id = 1, i_quantity = NaN\<rparr>])) shop))) = [NaN, Num 1]
   \<and> \<not> stock_ok (products (fst (handle lib0
        (PostOrders (bearer ana) (Some [\<lparr>i_id = 1, i_quantity = NaN\<rparr>])) shop)))"
  by (simp add: stock_ok_def zero_number_def protected_def authenticateToken_def bearer_token_def
      bearer_def token_def lib0_def orders_def shop_def ana_def root_def leo_def mia_def
      ana_user_def root_user_def keyboard_def monitor_def find_product_def dec_stock_def
      finish_order_def Let_def show_int_def show_nat.simps)

text \<open>
  C4 (sale ids of an order). In a successful order, the \<open>i\<close>-th created sale has the id
  \<open>length sales + i + 1\<close>, the ids of the created sales are pairwise distinct, and the
  order's id and date are those of the first created sale.
\<close>

theorem orders_sale_ids:
  assumes "orders l cl items st = (st', (201, b))"
  shows "\<exists>ord its. b = OrderCreated ''Orden creada exitosamente'' ord
     \<and> items = Some its \<and> length (o_items ord) = length its \<and> o_items ord \<noteq> []
     \<and> sales st' = sales st @ o_items ord
     \<and> (\<forall>i<length (o_items ord). s_id (o_items ord ! i) = int (length (sales st)) + int i + 1)
     \<and> distinct (map s_id (o_items ord))
     \<and> o_id ord = s_id (o_items ord ! 0) \<and> o_date ord = s_date (o_items ord ! 0)"
proof -
  from assms obtain its u ps ns t where its: "items = Some its" "its \<noteq> []"
    and run: "order_loop (now l) (u_id u) (length (sales st)) its (products st) [] 0 = (ps, Inr (ns, t))"
    and fin: "(st', (201, b)) = finish_order u ns t (st\<lparr>products := ps\<rparr>)"
    by (rule orders_success)
  from order_loop_sales [OF run] have len: "length ns = length its"
    and ids: "\<forall>k<length its. s_id (ns ! k) = int (length (sales st)) + int k + 1"
    by auto
  from len its(2) obtain first more where ns: "ns = first # more" by (cases ns) auto
  define ord where "ord = \<lparr> o_id = s_id first, o_userId = u_id u, o_userName = u_name u,
      o_items = ns, o_total = t, o_date = s_date first \<rparr>"
  from fin ns have b: "b = OrderCreated ''Orden creada exitosamente'' ord"
    and st': "sales st' = sales st @ ns"
    by (simp_all add: finish_order_def ord_def)
  have "distinct (map s_id ns)"
    unfolding distinct_conv_nth using ids len by auto
  with b st' len ids its ns show ?thesis
    by (intro exI [of _ ord] exI [of _ its]) (simp add: ord_def)
qed

theorem orders_sale_ids_witness:
  "orders lib0 ana (Some [line 1 2, line 2 1]) shop =
     (fst (orders lib0 ana (Some [line 1 2, line 2 1]) shop),
      (201, snd (snd (orders lib0 ana (Some [line 1 2, line 2 1]) shop))))
   \<and> (\<exists>ord. snd (snd (orders lib0 ana (Some [line 1 2, line 2 1]) shop)) =
              OrderCreated ''Orden creada exitosamente'' ord
        \<and> map s_id (o_items ord) = [1, 2] \<and> o_id ord = 1
        \<and> o_date ord = s_date (o_items ord ! 0))"
proof -
  have r: "orders lib0 ana (Some [line 1 2, line 2 1]) shop =
     (fst (orders lib0 ana (Some [line 1 2, line 2 1]) shop),
      (201, snd (snd (orders lib0 ana (Some [line 1 2, line 2 1]) shop))))"
    by (simp add: orders_def lib0_def shop_def ana_def ana_user_def root_user_def keyboard_def
      monitor_def line_def find_product_def dec_stock_def finish_order_def Let_def)
  from orders_sale_ids [OF r] obtain ord where
    b: "snd (snd (orders lib0 ana (Some [line 1 2, line 2 1]) shop)) =
              OrderCreated ''Orden creada exitosamente'' ord"
    and l: "length (o_items ord) = 2"
    and i: "\<forall>i<length (o_items ord). s_id (o_items ord ! i) = int (length (sales shop)) + int i + 1"
    and f: "o_id ord = s_id (o_items ord ! 0)" "o_date ord = s_date (o_items ord ! 0)"
    by auto
  from l obtain x y where xy: "o_items ord = [x, y]"
    by (cases "o_items ord"; cases "tl (o_items ord)") auto
  from i xy have "s_id x = 1" "s_id y = 2" by (auto simp: shop_def)
  with xy f b r show ?thesis by auto
qed

text \<open>
  C5 (duplicate email). The claim: a registration whose email is that of an existing user
  fails with the duplicate-email error. The handler checks the required fields first, so
  such a request without a name gets the required-fields error.
\<close>

theorem register_required_fields_first:
  "Some ''ana@shop.test'' \<in> set (map u_email (users shop))
   \<and> register lib0 None (Some ''ana@shop.test'') (Some ''clave'') None None shop =
       (shop, (400, Error ''Nombre, email y contrasena son requeridos''))"
  by (simp add: register_def shop_def ana_user_def root_user_def)

text \<open>
  C5, amended. A registration whose email is that of an existing user fails with status
  400 and leaves the state as it is; the error is the duplicate-email error when name,
  email and password are all present, and the required-fields error otherwise.
\<close>

theorem register_duplicate_email:
  assumes "email \<in> set (map u_email (users st))"
  shows "fst (register l name email password phone address st) = st
     \<and> fst (snd (register l name email password phone address st)) = 400
     \<and> (truthy name \<and> truthy email \<and> truthy password \<longrightarrow>
          snd (register l name email password phone address st) =
            (400, Error ''El email ya esta registrado''))
     \<and> (\<not> (truthy name \<and> truthy email \<and> truthy password) \<longrightarrow>
          snd (register l name email password phone address st) =
            (400, Error ''Nombre, email y contrasena son requeridos''))"
proof -
  from find_email_Some [OF assms] obtain u where
    "List.find (\<lambda>u. u_email u = email) (users st) = Some u" by blast
  then show ?thesis by (simp add: register_def)
qed

theorem register_duplicate_email_witness:
  "Some ''ana@shop.test'' \<in> set (map u_email (users shop))
   \<and> register lib0 (Some ''Ana'') (Some ''ana@shop.test'') (Some ''clave'') None None shop =
       (shop, (400, Error ''El email ya esta registrado''))"
proof -
  have h: "Some ''ana@shop.test'' \<in> set (map u_email (users shop))"
    by (simp add: shop_def ana_user_def)
  from register_duplicate_email [OF h, of lib0 "Some ''Ana''" "Some ''clave''" None None] h
  show ?thesis by (simp add: prod_eq_iff)
qed

text \<open>
  C6 (login failures). The claim: every failed login with both fields present gets the
  same status and message, whether no user has the email or the comparison with the
  stored hash fails. A user created by an order of the first version of the server has no
  password; \<^verbatim>\<open>bcrypt.compare\<close> throws on the missing hash and the handler's \<^verbatim>\<open>catch\<close>
  answers 500. With Eva created that way, a login with her email gets 500 and a login
  with an email that no user has gets 401, so the response tells that her email is known.
\<close>

theorem login_without_stored_hash_differs:
  "map u_email (users with_guest) =
     [Some ''ana@shop.test'', Some ''root@shop.test'', Some ''eva@shop.test'']
   \<and> map u_password (users with_guest) = [Some ''#secreto'', Some ''#admin123'', None]
   \<and> snd (handle lib0 (PostLogin (Some ''nadie@shop.test'') (Some ''clave'')) with_guest) =
       (401, Error ''Credenciales invalidas'')
   \<and> snd (handle lib0 (PostLogin (Some ''eva@shop.test'') (Some ''clave'')) with_guest) =
       (500, Error ''Error al iniciar sesion'')"
proof -
  have u: "users with_guest =
      [ana_user, root_user,
       \<lparr> u_id = 3, u_name = Some ''Eva'', u_email = Some ''eva@shop.test'', u_password = None,
         u_phone = None, u_address = Some ''Calle 1'', u_role = Some ''customer'' \<rparr>]"
    by (simp add: with_guest_def run_def orders_v1_def eva_buyer_def shop_def lib0_def line_def
        ana_user_def root_user_def keyboard_def monitor_def find_product_def dec_stock_def
        finish_order_def Let_def)
  show ?thesis
    by (simp add: u login_def ana_user_def root_user_def)
qed

text \<open>
  C7 (deleting a user). If a sale references the user id, the answer is 400 and the state
  is unchanged; if none does and a user has the id, the first user with the id is removed
  and all others stay, in their order; if none does and no user has the id, the answer is
  404 and the state is unchanged.
\<close>

theorem delete_user_cases:
  "((\<exists>s\<in>set (sales st). loose_eq (s_userId s) param) \<longrightarrow>
       delete_user param st =
         (st, (400, Error ''No se puede eliminar el usuario con ventas registradas'')))
   \<and> (\<not> (\<exists>s\<in>set (sales st). loose_eq (s_userId s) param)
        \<and> (\<exists>u\<in>set (users st). loose_eq (u_id u) param) \<longrightarrow>
       (\<exists>i<length (users st). loose_eq (u_id (users st ! i)) param
          \<and> (\<forall>j<i. \<not> loose_eq (u_id (users st ! j)) param)
          \<and> users (fst (delete_user param st)) = take i (users st) @ drop (Suc i) (users st)
          \<and> products (fst (delete_user param st)) = products st
          \<and> sales (fst (delete_user param st)) = sales st
          \<and> snd (delete_user param st) = (200, Message ''Usuario eliminado correctamente'')))
   \<and> (\<not> (\<exists>s\<in>set (sales st). loose_eq (s_userId s) param)
        \<and> \<not> (\<exists>u\<in>set (users st). loose_eq (u_id u) param) \<longrightarrow>
       delete_user param st = (st, (404, Error ''Usuario no encontrado'')))"
proof (intro conjI impI)
  assume "\<exists>s\<in>set (sales st). loose_eq (s_userId s) param"
  then have "filter (\<lambda>s. loose_eq (s_userId s) param) (sales st) \<noteq> []"
    by (simp add: filter_empty_conv)
  then show "delete_user param st =
         (st, (400, Error ''No se puede eliminar el usuario con ventas registradas''))"
    by (simp add: delete_user_def)
next
  assume a: "\<not> (\<exists>s\<in>set (sales st). loose_eq (s_userId s) param)
        \<and> (\<exists>u\<in>set (users st). loose_eq (u_id u) param)"
  then have none: "filter (\<lambda>s. loose_eq (s_userId s) param) (sales st) = []"
    by (simp add: filter_empty_conv)
  from a findIndex_exists [of "users st" "\<lambda>u. loose_eq (u_id u) param"]
  obtain i where i: "findIndex (\<lambda>u. loose_eq (u_id u) param) (users st) = Some i" by blast
  from findIndex_Some [OF i] have "i < length (users st)" "loose_eq (u_id (users st ! i)) param"
    "\<forall>j<i. \<not> loose_eq (u_id (users st ! j)) param" by simp_all
  moreover from none i have "users (fst (delete_user param st)) = take i (users st) @ drop (Suc i) (users st)"
    "products (fst (delete_user param st)) = products st"
    "sales (fst (delete_user param st)) = sales st"
    "snd (delete_user param st) = (200, Message ''Usuario eliminado correctamente'')"
    by (simp_all add: delete_user_def splice1_def Let_def)
  ultimately show "\<exists>i<length (users st). loose_eq (u_id (users st ! i)) param
          \<and> (\<forall>j<i. \<not> loose_eq (u_id (users st ! j)) param)
          \<and> users (fst (delete_user param st)) = take i (users st) @ drop (Suc i) (users st)
          \<and> products (fst (delete_user param st)) = products st
          \<and> sales (fst (delete_user param st)) = sales st
          \<and> snd (delete_user param st) = (200, Message ''Usuario eliminado correctamente'')"
    by blast
next
  assume a: "\<not> (\<exists>s\<in>set (sales st). loose_eq (s_userId s) param)
        \<and> \<not> (\<exists>u\<in>set (users st). loose_eq (u_id u) param)"
  then have none: "filter (\<lambda>s. loose_eq (s_userId s) param) (sales st) = []"
    by (simp add: filter_empty_conv)
  from a have "findIndex (\<lambda>u. loose_eq (u_id u) param) (users st) = None"
    by (cases "findIndex (\<lambda>u. loose_eq (u_id u) param) (users st)")
       (auto dest!: findIndex_Some)
  with none show "delete_user param st = (st, (404, Error ''Usuario no encontrado''))"
    by (simp add: delete_user_def)
qed

theorem delete_user_cases_witness:
  "(\<exists>s\<in>set (sales sold). loose_eq (s_userId s) (Some 1))
   \<and> delete_user (Some 1) sold =
       (sold, (400, Error ''No se puede eliminar el usuario con ventas registradas''))
   \<and> \<not> (\<exists>s\<in>set (sales sold). loose_eq (s_userId s) (Some 2))
   \<and> (\<exists>u\<in>set (users sold). loose_eq (u_id u) (Some 2))
   \<and> users (fst (delete_user (Some 2) sold)) = [ana_user]
   \<and> snd (delete_user (Some 2) sold) = (200, Message ''Usuario eliminado correctamente'')
   \<and> \<not> (\<exists>u\<in>set (users sold). loose_eq (u_id u) (Some 9))
   \<and> delete_user (Some 9) sold = (sold, (404, Error ''Usuario no encontrado''))"
proof -
  have s1: "\<exists>s\<in>set (sales sold). loose_eq (s_userId s) (Some 1)"
    and s2: "\<not> (\<exists>s\<in>set (sales sold). loose_eq (s_userId s) (Some 2))"
    and s9: "\<not> (\<exists>s\<in>set (sales sold). loose_eq (s_userId s) (Some 9))"
    and u2: "\<exists>u\<in>set (users sold). loose_eq (u_id u) (Some 2)"
    and u9: "\<not> (\<exists>u\<in>set (users sold). loose_eq (u_id u) (Some 9))"
    by (simp_all add: sold_def ana_sale_def ana_user_def root_user_def)
  from delete_user_cases [of sold "Some 1"] s1
  have a: "delete_user (Some 1) sold =
       (sold, (400, Error ''No se puede eliminar el usuario con ventas registradas''))" by simp
  from delete_user_cases [of sold "Some 2"] s2 u2
  obtain i where i: "i < length (users sold)" "loose_eq (u_id (users sold ! i)) (Some 2)"
    "users (fst (delete_user (Some 2) sold)) = take i (users sold) @ drop (Suc i) (users sold)"
    "snd (delete_user (Some 2) sold) = (200, Message ''Usuario eliminado correctamente'')"
    by auto
  from i(1,2) have "i = 1"
    by (auto simp: sold_def ana_user_def root_user_def less_Suc_eq)
  with i(3) have b: "users (fst (delete_user (Some 2) sold)) = [ana_user]"
    by (simp add: sold_def)
  from delete_user_cases [of sold "Some 9"] s9 u9
  have c: "delete_user (Some 9) sold = (sold, (404, Error ''Usuario no encontrado''))" by simp
  from a b c i(4) s1 s2 u2 u9 show ?thesis by simp
qed

text \<open>
  C8 (no password in responses). The user object of a successful registration, login or
  profile read has no password property, while the stored record has one: the new record
  of a registration holds the hash of the submitted password, and login and profile read
  leave the state, and so the stored record, as it is.
\<close>

theorem responses_without_password:
  "(register l name email password phone address st = (st', (201, Auth msg u tok)) \<longrightarrow>
      u_password u = None
      \<and> (\<exists>stored pw. password = Some pw \<and> users st' = users st @ [stored]
            \<and> u_password stored = Some (bcrypt_hash l pw) \<and> u = without_password stored))
   \<and> (login l email password st = (st', (200, Auth msg u tok)) \<longrightarrow>
      u_password u = None \<and> st' = st
      \<and> (\<exists>stored\<in>set (users st). \<exists>h. u_password stored = Some h \<and> u = without_password stored))
   \<and> (get_profile cl st = (st', (200, Profile u)) \<longrightarrow>
      u_password u = None \<and> st' = st
      \<and> (\<exists>stored\<in>set (users st). u = without_password stored))"
proof (intro conjI impI)
  assume r: "register l name email password phone address st = (st', (201, Auth msg u tok))"
  then obtain pw where pw: "password = Some pw"
    by (cases password) (auto simp: register_def split: if_splits option.splits)
  define stored where "stored = \<lparr> u_id = int (length (users st)) + 1, u_name = name,
      u_email = email, u_password = Some (bcrypt_hash l pw), u_phone = or_empty phone,
      u_address = or_empty address, u_role = Some ''customer'' \<rparr>"
  from r pw have "users st' = users st @ [stored]" "u = without_password stored"
    by (auto simp: register_def Let_def stored_def split: if_splits option.splits)
  moreover have "u_password stored = Some (bcrypt_hash l pw)" by (simp add: stored_def)
  ultimately show "u_password u = None"
    and "\<exists>stored pw. password = Some pw \<and> users st' = users st @ [stored]
            \<and> u_password stored = Some (bcrypt_hash l pw) \<and> u = without_password stored"
    using pw by (auto simp: without_password_def)
next
  assume r: "login l email password st = (st', (200, Auth msg u tok))"
  then obtain stored where f: "List.find (\<lambda>u. u_email u = email) (users st) = Some stored"
    by (cases "List.find (\<lambda>u. u_email u = email) (users st)")
       (auto simp: login_def split: if_splits)
  from r f obtain h where h: "u_password stored = Some h"
    by (cases "u_password stored") (auto simp: login_def split: if_splits option.splits)
  from r f h have "st' = st" "u = without_password stored"
    by (auto simp: login_def Let_def split: if_splits option.splits)
  with h find_in_set [OF f] show "u_password u = None" and "st' = st"
    and "\<exists>stored\<in>set (users st). \<exists>h. u_password stored = Some h \<and> u = without_password stored"
    by (auto simp: without_password_def)
next
  assume r: "get_profile cl st = (st', (200, Profile u))"
  then obtain stored where f: "List.find (\<lambda>u. u_id u = c_id cl) (users st) = Some stored"
    by (cases "List.find (\<lambda>u. u_id u = c_id cl) (users st)") (auto simp: get_profile_def)
  with r have "st' = st" "u = without_password stored"
    by (auto simp: get_profile_def)
  with find_in_set [OF f] show "u_password u = None" and "st' = st"
    and "\<exists>stored\<in>set (users st). u = without_password stored"
    by (auto simp: without_password_def)
qed

theorem responses_without_password_witness:
  "register lib0 (Some ''Eva'') (Some ''eva@shop.test'') (Some ''clave'') None (Some ''Calle 1'') shop =
     (shop\<lparr>users := [ana_user, root_user, eva_user], users_file := [ana_user, root_user, eva_user]\<rparr>,
      (201, Auth ''Usuario registrado exitosamente'' (eva_user\<lparr>u_password := None\<rparr>) ''t3.eva@shop.test''))
   \<and> u_password (eva_user\<lparr>u_password := None\<rparr>) = None
   \<and> login lib0 (Some ''ana@shop.test'') (Some ''secreto'') shop =
       (shop, (200, Auth ''Login exitoso'' (ana_user\<lparr>u_password := None\<rparr>) ''t1.ana@shop.test''))
   \<and> get_profile ana shop = (shop, (200, Profile (ana_user\<lparr>u_password := None\<rparr>)))
   \<and> u_password ana_user = Some ''#secreto''"
proof -
  have a: "register lib0 (Some ''Eva'') (Some ''eva@shop.test'') (Some ''clave'') None (Some ''Calle 1'') shop =
     (shop\<lparr>users := [ana_user, root_user, eva_user], users_file := [ana_user, root_user, eva_user]\<rparr>,
      (201, Auth ''Usuario registrado exitosamente'' (eva_user\<lparr>u_password := None\<rparr>) ''t3.eva@shop.test''))"
    by (simp add: register_def shop_def ana_user_def root_user_def eva_user_def lib0_def
        without_password_def Let_def token_def show_int_def show_nat.simps)
  have b: "login lib0 (Some ''ana@shop.test'') (Some ''secreto'') shop =
       (shop, (200, Auth ''Login exitoso'' (ana_user\<lparr>u_password := None\<rparr>) ''t1.ana@shop.test''))"
    by (simp add: login_def shop_def ana_user_def root_user_def lib0_def
        without_password_def Let_def token_def show_int_def show_nat.simps)
  have c: "get_profile ana shop = (shop, (200, Profile (ana_user\<lparr>u_password := None\<rparr>)))"
    by (simp add: get_profile_def shop_def ana_user_def root_user_def ana_def without_password_def)
  from responses_without_password [of lib0 "Some ''Eva''" "Some ''eva@shop.test''" "Some ''clave''"
      None "Some ''Calle 1''" shop _ _ "eva_user\<lparr>u_password := None\<rparr>" "''t3.eva@shop.test''"] a
  have "u_password (eva_user\<lparr>u_password := None\<rparr>) = None" by simp
  with a b c show ?thesis by (simp add: ana_user_def)
qed

text \<open>
  C9 (catalog reads). \<^verbatim>\<open>GET /categories\<close> answers with the categories of the products,
  each once, and the three catalog reads leave the whole state as it is.
\<close>

theorem catalog_reads:
  "(\<exists>cs. get_categories st = (st, (200, Categories cs))
       \<and> distinct cs \<and> set cs = set (map p_category (products st)))
   \<and> fst (get_products st) = st
   \<and> fst (get_product param st) = st"
  using foldl_set_add [of "[]" "map p_category (products st)"]
  by (simp add: get_categories_def get_products_def get_product_def new_Set_def split: option.splits)

text \<open>
  C10 (profile update). The claim: the update changes only name, phone and address of
  the authenticated user, and no other user's record. The handler changes the first
  user whose id is the token's id, and a registration gives the id
  \<^verbatim>\<open>users.length + 1\<close>, which after a deletion is the id of a user that exists. After Eva
  and Leo register, the administrator deletes Eva and Mia registers, Leo and Mia both have
  id 4; an update with Mia's token then writes her name and phone into Leo's record and
  answers with Leo's record, while Mia's own record stays as it was.
\<close>

theorem put_profile_rewrites_other_user:
  "map u_id (users with_reused_id) = [1, 2, 4, 4]
   \<and> map u_email (users with_reused_id) =
       [Some ''ana@shop.test'', Some ''root@shop.test'', Some ''leo@shop.test'',
        Some ''mia@shop.test'']
   \<and> map u_name (users with_reused_id) = [Some ''Ana'', Some ''Root'', Some ''Leo'', Some ''Mia'']
   \<and> jwt_verify lib0 (token mia) = Some mia
   \<and> snd (handle lib0 (PutProfile (bearer mia) (Some ''Mia M.'') (Some ''555'') None)
            with_reused_id) =
       (200, ProfileUpdated ''Perfil actualizado''
          \<lparr> u_id = 4, u_name = Some ''Mia M.'', u_email = Some ''leo@shop.test'',
            u_password = None, u_phone = Some ''555'', u_address = Some [],
            u_role = Some ''customer'' \<rparr>)
   \<and> map u_name (users (fst (handle lib0
        (PutProfile (bearer mia) (Some ''Mia M.'') (Some ''555'') None) with_reused_id))) =
       [Some ''Ana'', Some ''Root'', Some ''Mia M.'', Some ''Mia'']
   \<and> map u_phone (users (fst (handle lib0
        (PutProfile (bearer mia) (Some ''Mia M.'') (Some ''555'') None) with_reused_id))) =
       [Some [], Some [], Some ''555'', Some []]"
proof -
  have u: "users with_reused_id =
      [ana_user, root_user,
       \<lparr> u_id = 4, u_name = Some ''Leo'', u_email = Some ''leo@shop.test'',
         u_password = Some ''#clave-leo'', u_phone = Some ''111'', u_address = Some [],
         u_role = Some ''customer'' \<rparr>,
       \<lparr> u_id = 4, u_name = Some ''Mia'', u_email = Some ''mia@shop.test'',
         u_password = Some ''#clave-mia'', u_phone = Some [], u_address = Some [],
         u_role = Some ''customer'' \<rparr>]"
    by (simp add: with_reused_id_def run_def register_def admin_def protected_def isAdmin_def
        authenticateToken_def bearer_token_def bearer_def token_def delete_user_def splice1_def
        shop_def lib0_def ana_def root_def leo_def mia_def ana_user_def root_user_def
        Let_def show_int_def show_nat.simps)
  have v: "authenticateToken lib0 (bearer mia) = Inr mia"
    by (simp add: authenticateToken_def bearer_token_def bearer_def token_def lib0_def
        ana_def root_def leo_def mia_def show_int_def show_nat.simps)
  have w: "jwt_verify lib0 (token mia) = Some mia"
    by (simp add: token_def lib0_def ana_def root_def leo_def mia_def show_int_def
        show_nat.simps)
  have c: "c_id mia = 4"
    by (simp add: mia_def)
  show ?thesis
    by (simp add: u v w c protected_def put_profile_def without_password_def Let_def
        ana_user_def root_user_def)
qed

end
